theory Spec2Isabelle
  imports Complex_Main "HOL-Library.Multiset"
begin

section \<open>Collision phases of FGAme: data model\<close>

text \<open>
  The development embeds \<^verbatim>\<open>FGAme/physics/broadphase.py\<close>. A Python list is a HOL
  list, \<^verbatim>\<open>None\<close> is \<open>None\<close>. Coordinates and radii are Python floats: a float is
  the real number it denotes, and the result of every addition and subtraction the
  source performs is rounded by \<open>fl\<close>. Comparisons are exact.
\<close>

subsection \<open>Floats\<close>

text \<open>
  \<open>fl\<close> rounds a real number to the nearest binary64 float, ties to the even
  significand: a nonzero \<open>x\<close> with \<open>pow2 e \<le> \<bar>x\<bar> < pow2 (e + 1)\<close> becomes the nearest
  multiple of \<open>pow2 (e - 52)\<close>. The exponent is not bounded, so this is binary64 away
  from overflow and from the subnormal range.
\<close>

definition pow2 :: "int \<Rightarrow> real" where
  "pow2 e = (if 0 \<le> e then 2 ^ nat e else 1 / 2 ^ nat (- e))"

definition round_even :: "real \<Rightarrow> int" where
  "round_even y =
     (let f = \<lfloor>y\<rfloor>; d = y - of_int f
      in if d < 1 / 2 then f else if d > 1 / 2 then f + 1 else if even f then f else f + 1)"

definition fl :: "real \<Rightarrow> real" where
  "fl x =
     (if x = 0 then 0
      else let u = pow2 (\<lfloor>log 2 \<bar>x\<bar>\<rfloor> - 52) in u * of_int (round_even (x / u)))"

subsection \<open>Vectors, bodies, phases\<close>

type_synonym vec = "real \<times> real"

text \<open>
  Modelled from the spec: the vector library behind \<^verbatim>\<open>A.pos - B.pos\<close>,
  \<^verbatim>\<open>.norm()\<close> and \<^verbatim>\<open>col.normal *= -1\<close> is not part of the file. The spec
  calls the test the Euclidean distance between centers: the difference is taken by
  component, each rounded, and the norm is the Euclidean norm, rounded. Multiplying a
  float by \<open>-1\<close> is exact.
\<close>

definition vec_sub :: "vec \<Rightarrow> vec \<Rightarrow> vec" where
  "vec_sub u v = (fl (fst u - fst v), fl (snd u - snd v))"

definition vec_norm :: "vec \<Rightarrow> real" where
  "vec_norm v = fl (sqrt ((fst v)\<^sup>2 + (snd v)\<^sup>2))"

definition vec_scale :: "vec \<Rightarrow> real \<Rightarrow> vec" where
  "vec_scale v k = (fst v * k, snd v * k)"

definition vec_neg :: "vec \<Rightarrow> vec" where
  "vec_neg v = (- fst v, - snd v)"

text \<open>
  A body, with the attributes the phases read: the horizontal extent, the position and
  bounding radius, \<^verbatim>\<open>is_dynamic()\<close>, the sleep flag, and its class
  (\<^verbatim>\<open>type(A)\<close>, by name).
\<close>

record body =
  xmin :: real
  xmax :: real
  pos :: vec
  cbb_radius :: real
  is_dynamic :: bool
  is_sleep :: bool
  body_type :: string

text \<open>The candidate pairs of the broad phase, tagged by the variant that made them.\<close>

datatype bpair = AABBContact body body | CBBContact body body

fun pair_bodies :: "bpair \<Rightarrow> body \<times> body" where
  "pair_bodies (AABBContact A B) = (A, B)"
| "pair_bodies (CBBContact A B) = (A, B)"

text \<open>A phase object: \<^verbatim>\<open>self.world\<close> and \<^verbatim>\<open>self._data\<close>.\<close>

record 'd phase =
  phase_world :: "nat option"
  phase_data :: "'d list"

text \<open>\<^verbatim>\<open>AbstractCollisionPhase.__init__(data=[], world=None)\<close>.\<close>

definition AbstractCollisionPhase_init :: "'d list \<Rightarrow> nat option \<Rightarrow> 'd phase" where
  "AbstractCollisionPhase_init dat w = \<lparr>phase_world = w, phase_data = [] @ dat\<rparr>"

section \<open>Broad phase\<close>

text \<open>
  The inner loop of \<^verbatim>\<open>BroadPhaseAABB.update\<close> for one body \<open>A\<close> over the bodies
  after it in sorted order: \<^verbatim>\<open>break\<close> ends the scan, \<^verbatim>\<open>continue\<close> goes on
  with the rest, an append is a cons in front of what the rest of the scan appends.
  \<^verbatim>\<open>shadow_y\<close> is imported from \<^verbatim>\<open>mathtools\<close>; it is a parameter here.
\<close>

fun aabb_scan :: "(body \<Rightarrow> body \<Rightarrow> real) \<Rightarrow> body \<Rightarrow> body list \<Rightarrow> bpair list" where
  "aabb_scan shadow_y A [] = []"
| "aabb_scan shadow_y A (B # rest) =
     (if xmin B > xmax A then []
      else if \<not> is_dynamic A \<and> \<not> is_dynamic B then aabb_scan shadow_y A rest
      else if is_sleep A \<and> is_sleep B then aabb_scan shadow_y A rest
      else if shadow_y A B \<le> 0 then aabb_scan shadow_y A rest
      else AABBContact A B # aabb_scan shadow_y A rest)"

text \<open>The outer loop: every body of the sorted list, scanned against the bodies after it.\<close>

fun aabb_sweep :: "(body \<Rightarrow> body \<Rightarrow> real) \<Rightarrow> body list \<Rightarrow> bpair list" where
  "aabb_sweep shadow_y [] = []"
| "aabb_sweep shadow_y (A # rest) = aabb_scan shadow_y A rest @ aabb_sweep shadow_y rest"

text \<open>
  \<^verbatim>\<open>BroadPhaseAABB.update(L)\<close>. \<^verbatim>\<open>sorted\<close> is stable and builds a new list, as
  \<open>sort_key\<close> does; the held list is emptied and refilled. The second component is the
  caller's list \<open>L\<close> as the call leaves it: nothing writes to it.
\<close>

definition BroadPhaseAABB_update ::
  "(body \<Rightarrow> body \<Rightarrow> real) \<Rightarrow> bpair phase \<Rightarrow> body list \<Rightarrow> bpair phase \<times> body list" where
  "BroadPhaseAABB_update shadow_y self L =
     (let objects = sort_key xmin L
      in (self\<lparr>phase_data := aabb_sweep shadow_y objects\<rparr>, L))"

text \<open>
  The same two loops of \<^verbatim>\<open>BroadPhaseCBB.update\<close>. The sort key and \<^verbatim>\<open>B_left\<close> are
  both the float \<^verbatim>\<open>pos.x - cbb_radius\<close> (\<^verbatim>\<open>pos\<close> and \<^verbatim>\<open>_pos\<close> name one
  attribute); \<^verbatim>\<open>A_right\<close> is the float \<^verbatim>\<open>A.pos.x + A_radius\<close>, and the distance is
  compared with the float \<^verbatim>\<open>A_radius + B_radius\<close>.
\<close>

definition cbb_left :: "body \<Rightarrow> real" where
  "cbb_left obj = fl (fst (pos obj) - cbb_radius obj)"

fun cbb_scan :: "body \<Rightarrow> body list \<Rightarrow> bpair list" where
  "cbb_scan A [] = []"
| "cbb_scan A (B # rest) =
     (if cbb_left B > fl (fst (pos A) + cbb_radius A) then []
      else if \<not> is_dynamic A \<and> \<not> is_dynamic B then cbb_scan A rest
      else if is_sleep A \<and> is_sleep B then cbb_scan A rest
      else if vec_norm (vec_sub (pos A) (pos B)) > fl (cbb_radius A + cbb_radius B)
        then cbb_scan A rest
      else CBBContact A B # cbb_scan A rest)"

fun cbb_sweep :: "body list \<Rightarrow> bpair list" where
  "cbb_sweep [] = []"
| "cbb_sweep (A # rest) = cbb_scan A rest @ cbb_sweep rest"

definition BroadPhaseCBB_update :: "bpair phase \<Rightarrow> body list \<Rightarrow> bpair phase \<times> body list" where
  "BroadPhaseCBB_update self L =
     (let objects = sort_key cbb_left L
      in (self\<lparr>phase_data := cbb_sweep objects\<rparr>, L))"

subsection \<open>The brute-force reference\<close>

text \<open>All pairs of entries at two different positions of a list, earlier entry first.\<close>

fun all_pairs :: "'a list \<Rightarrow> ('a \<times> 'a) list" where
  "all_pairs [] = []"
| "all_pairs (x # xs) = map (Pair x) xs @ all_pairs xs"

text \<open>The unordered pair of a candidate pair.\<close>

definition unordered :: "bpair \<Rightarrow> body set" where
  "unordered p = {fst (pair_bodies p), snd (pair_bodies p)}"

text \<open>
  The overlap tests of the two variants. Boxes: the horizontal extents meet (touching
  included) and the vertical shadow is positive. Circles: the test of the source, on the
  floats it computes; the distance of the centers does not exceed the sum of the radii.
\<close>

definition aabb_overlap :: "(body \<Rightarrow> body \<Rightarrow> real) \<Rightarrow> body \<Rightarrow> body \<Rightarrow> bool" where
  "aabb_overlap shadow_y A B \<longleftrightarrow>
     xmin B \<le> xmax A \<and> xmin A \<le> xmax B \<and> shadow_y A B > 0"


text \<open>The dynamic/sleep filter: a pair passes unless both are non-dynamic or both asleep.\<close>

definition may_interact :: "body \<Rightarrow> body \<Rightarrow> bool" where
  "may_interact A B \<longleftrightarrow>
     \<not> (\<not> is_dynamic A \<and> \<not> is_dynamic B) \<and> \<not> (is_sleep A \<and> is_sleep B)"

section \<open>Narrow phase\<close>

text \<open>
  Modelled from the spec: the Contact class is imported from \<^verbatim>\<open>FGAme.physics\<close>. A
  contact names the colliding pair, carries a normal and a back-reference to the world;
  \<^verbatim>\<open>swapped()\<close> returns an equivalent contact with roles and normal reversed.
\<close>

record contact =
  body_A :: body
  body_B :: body
  normal :: vec
  world :: "nat option"

definition swapped :: "contact \<Rightarrow> contact" where
  "swapped col = col\<lparr>body_A := body_B col, body_B := body_A col, normal := vec_neg (normal col)\<rparr>"

type_synonym test = "body \<Rightarrow> body \<Rightarrow> contact option"

type_synonym registry = "string \<times> string \<Rightarrow> test option"

datatype error = CollisionError

text \<open>
  Modelled from the spec: the dispatch registry \<^verbatim>\<open>get_collision\<close> is imported from
  \<^verbatim>\<open>FGAme.physics\<close>. It is a mapping keyed by the ordered pair of concrete types:
  calling it runs the registered test or raises \<^verbatim>\<open>CollisionError\<close> when there is
  none, \<^verbatim>\<open>get_collision[tA, tB] = f\<close> registers, \<^verbatim>\<open>get_implementation\<close> returns
  the registered test. A test returns a contact or \<^verbatim>\<open>None\<close>; tests are taken to be
  pure functions of the two bodies that raise nothing themselves.
\<close>

definition get_collision :: "registry \<Rightarrow> body \<Rightarrow> body \<Rightarrow> error + contact option" where
  "get_collision reg A B =
     (case reg (body_type A, body_type B) of
        None \<Rightarrow> Inl CollisionError
      | Some impl \<Rightarrow> Inr (impl A B))"

definition get_implementation :: "registry \<Rightarrow> string \<Rightarrow> string \<Rightarrow> error + test" where
  "get_implementation reg tA tB =
     (case reg (tA, tB) of None \<Rightarrow> Inl CollisionError | Some impl \<Rightarrow> Inr impl)"

definition register :: "registry \<Rightarrow> string \<Rightarrow> string \<Rightarrow> test \<Rightarrow> registry" where
  "register reg tA tB impl = reg((tA, tB) \<mapsto> impl)"

text \<open>The local function \<^verbatim>\<open>inverse\<close> of \<^verbatim>\<open>NarrowPhase.get_collision\<close>, closed over \<^verbatim>\<open>direct\<close>.\<close>

definition inverse_test :: "test \<Rightarrow> test" where
  "inverse_test direct A B =
     (case direct B A of None \<Rightarrow> None | Some col \<Rightarrow> Some (swapped col))"

text \<open>
  \<^verbatim>\<open>NarrowPhase.get_collision(A, B)\<close>. The registry is global state: it is passed in
  and returned. \<open>generic\<close> is \<^verbatim>\<open>get_collision_generic\<close>, imported from
  \<^verbatim>\<open>FGAme.physics\<close>. Each \<^verbatim>\<open>except CollisionError\<close> is the \<open>Inl\<close> branch of the
  call it guards; the \<^verbatim>\<open>return\<close> inside the second \<^verbatim>\<open>try\<close> leaves before the
  \<^verbatim>\<open>else\<close> clause; an error of \<^verbatim>\<open>get_implementation\<close> is not caught.
\<close>

definition NarrowPhase_get_collision ::
  "test \<Rightarrow> registry \<Rightarrow> body \<Rightarrow> body \<Rightarrow> error + (contact option \<times> registry)" where
  "NarrowPhase_get_collision generic reg A B =
     (case get_collision reg A B of
        Inr col \<Rightarrow> Inr (col, reg)
      | Inl CollisionError \<Rightarrow>
          (case get_collision reg B A of
             Inr None \<Rightarrow> Inr (None, reg)
           | Inr (Some col) \<Rightarrow>
               (let col' = col\<lparr>normal := vec_scale (normal col) (- 1)\<rparr>
                in case get_implementation reg (body_type B) (body_type A) of
                     Inl e \<Rightarrow> Inl e
                   | Inr direct \<Rightarrow>
                       Inr (Some col',
                            register reg (body_type A) (body_type B) (inverse_test direct)))
           | Inl CollisionError \<Rightarrow>
               (let reg1 = register reg (body_type A) (body_type B) generic;
                    reg2 = register reg1 (body_type B) (body_type A) generic
                in Inr (generic A B, reg2))))"

text \<open>
  The loop of \<^verbatim>\<open>NarrowPhase.update\<close> over the candidate pairs, each unpacked into
  \<open>(A, B)\<close>: a contact gets the phase's world and is appended, \<^verbatim>\<open>None\<close> is skipped.
  An exception ends the loop.
\<close>

fun narrow_loop ::
  "test \<Rightarrow> nat option \<Rightarrow> registry \<Rightarrow> (body \<times> body) list \<Rightarrow> error + (contact list \<times> registry)" where
  "narrow_loop generic w reg [] = Inr ([], reg)"
| "narrow_loop generic w reg ((A, B) # rest) =
     (case NarrowPhase_get_collision generic reg A B of
        Inl e \<Rightarrow> Inl e
      | Inr (col, reg1) \<Rightarrow>
          (case narrow_loop generic w reg1 rest of
             Inl e \<Rightarrow> Inl e
           | Inr (cols, reg2) \<Rightarrow>
               Inr ((case col of None \<Rightarrow> cols | Some c \<Rightarrow> c\<lparr>world := w\<rparr> # cols), reg2)))"

text \<open>
  \<^verbatim>\<open>NarrowPhase.update(broad_cols)\<close>: the held list is a new list filled by the loop.
  The result is the phase, the registry, and the caller's sequence as the call leaves it.
\<close>

definition NarrowPhase_update ::
  "test \<Rightarrow> registry \<Rightarrow> contact phase \<Rightarrow> (body \<times> body) list \<Rightarrow>
     error + (contact phase \<times> registry \<times> (body \<times> body) list)" where
  "NarrowPhase_update generic reg self broad_cols =
     (case narrow_loop generic (phase_world self) reg broad_cols of
        Inl e \<Rightarrow> Inl e
      | Inr (cols, reg') \<Rightarrow> Inr (self\<lparr>phase_data := cols\<rparr>, reg', broad_cols))"

text \<open>
  \<^verbatim>\<open>NarrowPhase.get_groups(cols=None)\<close>: it builds a \<^verbatim>\<open>BroadPhaseAABB\<close> holding
  \<open>cols\<close> (the phase's own contacts by default), prints it and falls off the end, which
  returns \<^verbatim>\<open>None\<close>. The result is what was printed and what was returned.
\<close>

definition NarrowPhase_get_groups ::
  "contact phase \<Rightarrow> contact list option \<Rightarrow> contact phase \<times> body set list option" where
  "NarrowPhase_get_groups self cols =
     (let cols' = (case cols of None \<Rightarrow> phase_data self | Some cs \<Rightarrow> cs);
          meta_cols = AbstractCollisionPhase_init cols' None
      in (meta_cols, None))"

subsection \<open>The resolution of a pair, in the spec's words\<close>

text \<open>
  The test that applies to \<open>(A, B)\<close>: the direct one; else the one registered for the
  reversed pair, run on \<open>(B, A)\<close>, with the normal negated; else the generic fallback.
\<close>

definition resolved_test :: "test \<Rightarrow> registry \<Rightarrow> body \<Rightarrow> body \<Rightarrow> contact option" where
  "resolved_test generic reg A B =
     (case reg (body_type A, body_type B) of
        Some direct \<Rightarrow> direct A B
      | None \<Rightarrow>
          (case reg (body_type B, body_type A) of
             Some reversed \<Rightarrow>
               map_option (\<lambda>col. col\<lparr>normal := vec_neg (normal col)\<rparr>) (reversed B A)
           | None \<Rightarrow> generic A B))"

text \<open>
  The relation between the contact an update holds for a pair and the contact of the
  pair's resolved test: the same record, or the same record with the two bodies listed
  in the other order (a cached wrapper lists them in the order of the call).
\<close>

definition same_collision :: "contact \<Rightarrow> contact \<Rightarrow> bool" where
  "same_collision c d \<longleftrightarrow>
     d = c \<or> d = c\<lparr>body_A := body_B c, body_B := body_A c\<rparr>"

text \<open>
  The spec's relation between a cached and an uncached answer, identical up to the
  normal-vector sign convention: the same contact, or the same contact with the normal
  negated.
\<close>

definition same_up_to_normal_sign :: "contact \<Rightarrow> contact \<Rightarrow> bool" where
  "same_up_to_normal_sign c d \<longleftrightarrow> d = c \<or> d = c\<lparr>normal := vec_neg (normal c)\<rparr>"

section \<open>Example data\<close>

definition box1 :: body where
  "box1 = \<lparr>xmin = 0, xmax = 2, pos = (1, 1), cbb_radius = 1,
            is_dynamic = True, is_sleep = False, body_type = ''Rect''\<rparr>"

definition box2 :: body where
  "box2 = \<lparr>xmin = 2, xmax = 4, pos = (3, 1), cbb_radius = 1,
            is_dynamic = True, is_sleep = False, body_type = ''Circle''\<rparr>"

definition box3 :: body where
  "box3 = \<lparr>xmin = 1, xmax = 3, pos = (2, 1), cbb_radius = 1,
            is_dynamic = True, is_sleep = False, body_type = ''Circle''\<rparr>"

definition box4 :: body where
  "box4 = \<lparr>xmin = 5, xmax = 6, pos = (11/2, 0), cbb_radius = 1/2,
            is_dynamic = False, is_sleep = False, body_type = ''Rect''\<rparr>"






text \<open>
  Two discs whose exact extents are apart by \<open>pow2 (- 53)\<close>: \<open>disc3\<close> at \<open>0\<close> with
  radius \<open>1\<close>, \<open>disc4\<close> at \<open>2\<close> with radius \<open>1 - pow2 (- 53)\<close>.
\<close>

definition disc3 :: body where
  "disc3 = \<lparr>xmin = - 1, xmax = 1, pos = (0, 0), cbb_radius = 1,
             is_dynamic = True, is_sleep = False, body_type = ''Circle''\<rparr>"

definition disc4 :: body where
  "disc4 = \<lparr>xmin = 1, xmax = 3, pos = (2, 0),
             cbb_radius = 9007199254740991 / 9007199254740992,
             is_dynamic = True, is_sleep = False, body_type = ''Circle''\<rparr>"

definition broad0 :: "bpair phase" where
  "broad0 = AbstractCollisionPhase_init [] None"

text \<open>
  Tests for the examples: \<open>hit0\<close> always reports a contact of its two arguments with
  normal \<open>(1, 0)\<close>, \<open>miss0\<close> never reports one; \<open>gen0\<close> stands for the generic test.
\<close>

definition hit0 :: test where
  "hit0 A B = Some \<lparr>body_A = A, body_B = B, normal = (1, 0), world = None\<rparr>"

definition miss0 :: test where
  "miss0 A B = None"

definition gen0 :: test where
  "gen0 A B = Some \<lparr>body_A = A, body_B = B, normal = (0, 1), world = None\<rparr>"

text \<open>Registries with one entry, for the pair (Circle, Rect).\<close>

definition reg_hit :: registry where
  "reg_hit = [(''Circle'', ''Rect'') \<mapsto> hit0]"

definition reg_miss :: registry where
  "reg_miss = [(''Circle'', ''Rect'') \<mapsto> miss0]"

definition reg_mixed :: registry where
  "reg_mixed = [(''Circle'', ''Rect'') \<mapsto> hit0, (''Circle'', ''Circle'') \<mapsto> miss0]"

definition narrow0 :: "contact phase" where
  "narrow0 = AbstractCollisionPhase_init [] (Some 7)"

section \<open>Broad phase: the box sweep finds exactly the overlapping pairs\<close>

lemma all_pairs_members: "(a, b) \<in> set (all_pairs xs) \<Longrightarrow> a \<in> set xs \<and> b \<in> set xs"
  by (induction xs) auto

lemma all_pairs_either:
  "((a, b) \<in> set (all_pairs xs) \<or> (b, a) \<in> set (all_pairs xs)) \<longleftrightarrow>
     (if a = b then 2 \<le> count (mset xs) a else a \<in> set xs \<and> b \<in> set xs)"
proof (induction xs)
  case Nil
  show ?case by simp
next
  case (Cons x xs)
  show ?case
  proof (cases "a = b")
    case True
    define n where "n = count (mset xs) a"
    have mem: "a \<in> set xs \<longleftrightarrow> 1 \<le> n"
      unfolding n_def by (simp add: Suc_le_eq)
    have twice: "(a, a) \<in> set (all_pairs xs) \<longleftrightarrow> 2 \<le> n"
      unfolding n_def using Cons True by simp
    have step: "(a, a) \<in> set (all_pairs (x # xs)) \<longleftrightarrow> (a = x \<and> 1 \<le> n) \<or> 2 \<le> n"
      unfolding mem[symmetric] twice[symmetric] by auto
    have cnt: "count (mset (x # xs)) a = (if x = a then n + 1 else n)"
      unfolding n_def by simp
    have "(a, a) \<in> set (all_pairs (x # xs)) \<longleftrightarrow> 2 \<le> count (mset (x # xs)) a"
      unfolding step cnt by (cases "x = a") auto
    then show ?thesis
      unfolding True by simp
  next
    case False
    with Cons show ?thesis
      by (auto dest: all_pairs_members)
  qed
qed

lemma all_pairs_mset:
  assumes "mset xs = mset ys"
  shows "((a, b) \<in> set (all_pairs xs) \<or> (b, a) \<in> set (all_pairs xs)) \<longleftrightarrow>
         ((a, b) \<in> set (all_pairs ys) \<or> (b, a) \<in> set (all_pairs ys))"
  using assms mset_eq_setD[OF assms] by (simp only: all_pairs_either)

lemma all_pairs_sorted:
  "sorted (map f xs) \<Longrightarrow> (a, b) \<in> set (all_pairs xs) \<Longrightarrow> f a \<le> f b"
  by (induction xs) auto

lemma aabb_scan_set:
  "sorted (map xmin rest) \<Longrightarrow>
   set (aabb_scan sh A rest) =
     {AABBContact A B | B. B \<in> set rest \<and> xmin B \<le> xmax A \<and> may_interact A B \<and> sh A B > 0}"
proof (induction rest)
  case Nil
  show ?case by simp
next
  case (Cons B rest)
  then have IH: "set (aabb_scan sh A rest) =
     {AABBContact A B | B. B \<in> set rest \<and> xmin B \<le> xmax A \<and> may_interact A B \<and> sh A B > 0}"
    and later: "\<forall>C \<in> set rest. xmin B \<le> xmin C"
    by auto
  show ?case
  proof (cases "xmin B > xmax A")
    case True
    with later have "\<forall>C \<in> set (B # rest). \<not> xmin C \<le> xmax A" by fastforce
    with True show ?thesis by auto
  next
    case False
    then show ?thesis
      by (auto simp: IH may_interact_def)
  qed
qed

lemma aabb_sweep_set:
  "sorted (map xmin S) \<Longrightarrow>
   set (aabb_sweep sh S) =
     {AABBContact A B | A B. (A, B) \<in> set (all_pairs S) \<and> xmin B \<le> xmax A \<and>
        may_interact A B \<and> sh A B > 0}"
proof (induction S)
  case Nil
  show ?case by simp
next
  case (Cons A S)
  then have "sorted (map xmin S)" by simp
  with Cons show ?case
    by (auto simp: aabb_scan_set)
qed


lemma may_interact_commute: "may_interact A B \<longleftrightarrow> may_interact B A"
  by (auto simp: may_interact_def)

lemma unordered_sweep:
  assumes perm: "mset S = mset L"
    and sym: "\<And>A B. P A B \<Longrightarrow> P B A"
    and mk: "\<And>A B. unordered (mk A B) = {A, B}"
    and out: "out = {mk A B | A B. (A, B) \<in> set (all_pairs S) \<and> P A B}"
  shows "unordered ` out = {{A, B} | A B. (A, B) \<in> set (all_pairs L) \<and> P A B}"
    (is "?lhs = ?rhs")
proof (intro equalityI subsetI)
  fix s assume "s \<in> ?lhs"
  then obtain A B where s: "s = {A, B}" and AB: "(A, B) \<in> set (all_pairs S)" and ok: "P A B"
    unfolding out by (auto simp: mk)
  from AB all_pairs_mset[OF perm, of A B]
  consider "(A, B) \<in> set (all_pairs L)" | "(B, A) \<in> set (all_pairs L)"
    by blast
  then show "s \<in> ?rhs"
  proof cases
    case 1
    with s ok show ?thesis by blast
  next
    case 2
    moreover have "s = {B, A}" using s by auto
    moreover have "P B A" using ok by (rule sym)
    ultimately show ?thesis by blast
  qed
next
  fix s assume "s \<in> ?rhs"
  then obtain A B where s: "s = {A, B}" and AB: "(A, B) \<in> set (all_pairs L)" and ok: "P A B"
    by blast
  from AB all_pairs_mset[OF perm, of A B]
  consider "(A, B) \<in> set (all_pairs S)" | "(B, A) \<in> set (all_pairs S)"
    by blast
  then show "s \<in> ?lhs"
  proof cases
    case 1
    with ok have "mk A B \<in> out"
      unfolding out by blast
    then have "unordered (mk A B) \<in> ?lhs"
      by (rule imageI)
    then show ?thesis using s by (simp add: mk)
  next
    case 2
    moreover have "P B A" using ok by (rule sym)
    ultimately have "mk B A \<in> out"
      unfolding out by blast
    then have "unordered (mk B A) \<in> ?lhs"
      by (rule imageI)
    moreover have "s = {B, A}" using s by auto
    ultimately show ?thesis by (simp add: mk)
  qed
qed

text \<open>
  The box variant only compares attributes. For boxes with \<open>xmin \<le> xmax\<close> and a
  symmetric shadow, the unordered pairs it holds after an update are exactly the pairs
  of entries of the input that overlap and pass the dynamic/sleep filter.
\<close>

lemma aabb_update_pairs:
  assumes wf: "\<forall>b \<in> set L. xmin b \<le> xmax b"
    and sym: "\<forall>A B. shadow_y A B = shadow_y B A"
  shows "unordered ` set (phase_data (fst (BroadPhaseAABB_update shadow_y self L))) =
     {{A, B} | A B. (A, B) \<in> set (all_pairs L) \<and>
        (aabb_overlap shadow_y A B \<and> may_interact A B)}"
proof (rule unordered_sweep[where S = "sort_key xmin L" and mk = AABBContact])
  let ?S = "sort_key xmin L"
  show "mset ?S = mset L" by simp
  show "\<And>A B. aabb_overlap shadow_y A B \<and> may_interact A B \<Longrightarrow>
      aabb_overlap shadow_y B A \<and> may_interact B A"
    using sym may_interact_commute by (auto simp: aabb_overlap_def)
  show "\<And>A B. unordered (AABBContact A B) = {A, B}"
    by (simp add: unordered_def)
  have sorted: "sorted (map xmin ?S)" by simp
  have "xmin A \<le> xmax B" if "(A, B) \<in> set (all_pairs ?S)" for A B
  proof -
    have "xmin A \<le> xmin B"
      using sorted that by (rule all_pairs_sorted)
    moreover have "B \<in> set L"
      using all_pairs_members[OF that] by simp
    ultimately show ?thesis
      using wf by fastforce
  qed
  then show "set (phase_data (fst (BroadPhaseAABB_update shadow_y self L))) =
      {AABBContact A B | A B. (A, B) \<in> set (all_pairs ?S) \<and>
         (aabb_overlap shadow_y A B \<and> may_interact A B)}"
    by (auto simp: BroadPhaseAABB_update_def aabb_sweep_set[OF sorted] aabb_overlap_def)
qed

text \<open>No pair held by the box variant has both bodies non-dynamic or both asleep.\<close>

lemma aabb_update_filter:
  "AABBContact A B \<in> set (phase_data (fst (BroadPhaseAABB_update shadow_y self L))) \<Longrightarrow>
     may_interact A B"
  by (auto simp: BroadPhaseAABB_update_def aabb_sweep_set)

text \<open>
  A body that starts exactly where \<open>A\<close> ends is not pruned by the break of the box scan;
  it is reported when the filter passes and the vertical shadow is positive.
\<close>

lemma aabb_scan_touch:
  "xmin B = xmax A \<Longrightarrow>
   aabb_scan shadow_y A (B # rest) =
     (if may_interact A B \<and> shadow_y A B > 0
      then AABBContact A B # aabb_scan shadow_y A rest else aabb_scan shadow_y A rest)"
  by (auto simp: may_interact_def)

section \<open>Narrow phase: resolving one pair\<close>

lemma vec_scale_minus_one: "vec_scale v (- 1) = vec_neg v"
  by (simp add: vec_scale_def vec_neg_def)

lemma NP_direct:
  "reg (body_type A, body_type B) = Some t \<Longrightarrow>
   NarrowPhase_get_collision generic reg A B = Inr (t A B, reg)"
  by (simp add: NarrowPhase_get_collision_def get_collision_def)

lemma NP_reversed_none:
  "reg (body_type A, body_type B) = None \<Longrightarrow> reg (body_type B, body_type A) = Some t \<Longrightarrow>
   t B A = None \<Longrightarrow>
   NarrowPhase_get_collision generic reg A B = Inr (None, reg)"
  by (simp add: NarrowPhase_get_collision_def get_collision_def)

lemma NP_reversed_some:
  "reg (body_type A, body_type B) = None \<Longrightarrow> reg (body_type B, body_type A) = Some t \<Longrightarrow>
   t B A = Some col \<Longrightarrow>
   NarrowPhase_get_collision generic reg A B =
     Inr (Some (col\<lparr>normal := vec_neg (normal col)\<rparr>),
          reg((body_type A, body_type B) \<mapsto> inverse_test t))"
  by (simp add: NarrowPhase_get_collision_def get_collision_def get_implementation_def
      register_def vec_scale_minus_one)

lemma NP_generic:
  "reg (body_type A, body_type B) = None \<Longrightarrow> reg (body_type B, body_type A) = None \<Longrightarrow>
   NarrowPhase_get_collision generic reg A B =
     Inr (generic A B,
          reg((body_type A, body_type B) \<mapsto> generic, (body_type B, body_type A) \<mapsto> generic))"
  by (simp add: NarrowPhase_get_collision_def get_collision_def register_def)

lemma NP_cases:
  obtains (direct) t where "reg (body_type A, body_type B) = Some t"
  | (reversed_none) t where "reg (body_type A, body_type B) = None"
      "reg (body_type B, body_type A) = Some t" "t B A = None"
  | (reversed_some) t col where "reg (body_type A, body_type B) = None"
      "reg (body_type B, body_type A) = Some t" "t B A = Some col"
  | (generic) "reg (body_type A, body_type B) = None" "reg (body_type B, body_type A) = None"
proof (cases "reg (body_type A, body_type B)")
  case (Some t)
  then show ?thesis by (rule direct)
next
  case noAB: None
  show ?thesis
  proof (cases "reg (body_type B, body_type A)")
    case None
    with noAB show ?thesis by (rule generic)
  next
    case (Some t)
    show ?thesis
    proof (cases "t B A")
      case None
      with noAB Some show ?thesis by (rule reversed_none)
    next
      case (Some col)
      with noAB \<open>reg (body_type B, body_type A) = Some t\<close> show ?thesis
        by (rule reversed_some)
    qed
  qed
qed

lemma NP_resolved:
  "\<exists>reg'. NarrowPhase_get_collision generic reg A B = Inr (resolved_test generic reg A B, reg')"
proof (cases rule: NP_cases[of reg A B])
  case (direct t)
  then show ?thesis by (simp add: NP_direct resolved_test_def)
next
  case (reversed_none t)
  then show ?thesis by (simp add: NP_reversed_none resolved_test_def)
next
  case (reversed_some t col)
  then show ?thesis by (simp add: NP_reversed_some resolved_test_def)
next
  case generic
  then show ?thesis by (simp add: NP_generic resolved_test_def)
qed

lemma same_collision_refl: "same_collision c c"
  by (simp add: same_collision_def)

lemma same_collision_trans: "same_collision c d \<Longrightarrow> same_collision d e \<Longrightarrow> same_collision c e"
  by (auto simp: same_collision_def)

lemma same_collision_swapped:
  "same_collision (col\<lparr>normal := vec_neg (normal col)\<rparr>) (swapped col)"
  by (simp add: same_collision_def swapped_def)


lemma rel_same_refl: "rel_option same_collision r r"
  by (cases r) (simp_all add: same_collision_refl)

lemma rel_same_trans:
  "rel_option same_collision r s \<Longrightarrow> rel_option same_collision s u \<Longrightarrow>
   rel_option same_collision r u"
  by (cases r; cases s; cases u) (auto intro: same_collision_trans)

lemma rel_same_inverse:
  "rel_option same_collision
     (map_option (\<lambda>col. col\<lparr>normal := vec_neg (normal col)\<rparr>) (t B A)) (inverse_test t A B)"
  by (cases "t B A") (simp_all add: inverse_test_def same_collision_swapped)

lemma resolved_test_cong:
  assumes "reg' (body_type A, body_type B) = reg (body_type A, body_type B)"
    and "reg' (body_type B, body_type A) = reg (body_type B, body_type A)"
  shows "resolved_test generic reg' A B = resolved_test generic reg A B"
  by (simp only: resolved_test_def assms)

lemma resolved_reversed_cached:
  assumes none: "reg (tX, tY) = None" and some: "reg (tY, tX) = Some t"
  shows "rel_option same_collision (resolved_test generic reg A B)
           (resolved_test generic (reg((tX, tY) \<mapsto> inverse_test t)) A B)"
proof -
  let ?reg' = "reg((tX, tY) \<mapsto> inverse_test t)"
  from assms have ne: "(tY, tX) \<noteq> (tX, tY)" by auto
  consider (same) "(body_type A, body_type B) = (tX, tY)"
    | (flipped) "(body_type A, body_type B) = (tY, tX)"
    | (other) "(body_type A, body_type B) \<noteq> (tX, tY)" "(body_type A, body_type B) \<noteq> (tY, tX)"
    by blast
  then show ?thesis
  proof cases
    case same
    then have tA: "body_type A = tX" and tB: "body_type B = tY" by simp_all
    have "resolved_test generic reg A B =
        map_option (\<lambda>col. col\<lparr>normal := vec_neg (normal col)\<rparr>) (t B A)"
      by (simp add: resolved_test_def tA tB none some)
    moreover have "resolved_test generic ?reg' A B = inverse_test t A B"
      by (simp add: resolved_test_def tA tB)
    ultimately show ?thesis
      by (simp only: rel_same_inverse)
  next
    case flipped
    then have tA: "body_type A = tY" and tB: "body_type B = tX" by simp_all
    have "?reg' (tY, tX) = reg (tY, tX)"
      using ne by (rule fun_upd_other)
    then have "resolved_test generic ?reg' A B = resolved_test generic reg A B"
      by (simp add: resolved_test_def tA tB some)
    then show ?thesis
      by (simp only: rel_same_refl)
  next
    case other
    from other(2) have "(body_type B, body_type A) \<noteq> (tX, tY)" by auto
    then have "?reg' (body_type B, body_type A) = reg (body_type B, body_type A)"
      by (rule fun_upd_other)
    moreover have "?reg' (body_type A, body_type B) = reg (body_type A, body_type B)"
      using other(1) by (rule fun_upd_other)
    ultimately have "resolved_test generic ?reg' A B = resolved_test generic reg A B"
      by (rule resolved_test_cong[rotated])
    then show ?thesis
      by (simp only: rel_same_refl)
  qed
qed

lemma resolved_generic_cached:
  assumes none: "reg (tX, tY) = None" and none': "reg (tY, tX) = None"
  shows "resolved_test generic (reg((tX, tY) \<mapsto> generic, (tY, tX) \<mapsto> generic)) A B =
         resolved_test generic reg A B"
proof -
  let ?reg' = "reg((tX, tY) \<mapsto> generic, (tY, tX) \<mapsto> generic)"
  have at1: "?reg' (tX, tY) = Some generic" by simp
  have at2: "?reg' (tY, tX) = Some generic" by simp
  consider (same) "(body_type A, body_type B) = (tX, tY)"
    | (flipped) "(body_type A, body_type B) = (tY, tX)"
    | (other) "(body_type A, body_type B) \<noteq> (tX, tY)" "(body_type A, body_type B) \<noteq> (tY, tX)"
    by blast
  then show ?thesis
  proof cases
    case same
    then have tA: "body_type A = tX" and tB: "body_type B = tY" by simp_all
    show ?thesis
      unfolding resolved_test_def tA tB at1 none none' by simp
  next
    case flipped
    then have tA: "body_type A = tY" and tB: "body_type B = tX" by simp_all
    show ?thesis
      unfolding resolved_test_def tA tB at2 none none' by simp
  next
    case other
    have "?reg' (body_type A, body_type B) = reg (body_type A, body_type B)"
      using other by (metis fun_upd_other)
    moreover from other have "(body_type B, body_type A) \<noteq> (tX, tY)"
      "(body_type B, body_type A) \<noteq> (tY, tX)" by auto
    then have "?reg' (body_type B, body_type A) = reg (body_type B, body_type A)"
      by (metis fun_upd_other)
    ultimately show ?thesis
      by (rule resolved_test_cong)
  qed
qed

lemma NP_step_equiv:
  assumes "NarrowPhase_get_collision generic reg X Y = Inr (r, reg')"
  shows "rel_option same_collision (resolved_test generic reg A B) (resolved_test generic reg' A B)"
proof (cases rule: NP_cases[of reg X Y])
  case (direct t)
  from assms direct have "reg' = reg"
    by (simp add: NP_direct)
  then show ?thesis by (simp only: rel_same_refl)
next
  case (reversed_none t)
  from assms reversed_none have "reg' = reg"
    by (simp add: NP_reversed_none)
  then show ?thesis by (simp only: rel_same_refl)
next
  case (reversed_some t col)
  from assms reversed_some have "reg' = reg((body_type X, body_type Y) \<mapsto> inverse_test t)"
    by (simp add: NP_reversed_some)
  then show ?thesis
    using resolved_reversed_cached[OF reversed_some(1,2)] by (simp only:)
next
  case generic
  from assms generic have "reg' = reg((body_type X, body_type Y) \<mapsto> generic,
      (body_type Y, body_type X) \<mapsto> generic)"
    by (simp add: NP_generic)
  then show ?thesis
    using resolved_generic_cached[OF generic] by (simp only: rel_same_refl)
qed


section \<open>Narrow phase: the update\<close>

lemma same_collision_world:
  "same_collision c d \<Longrightarrow> same_collision (c\<lparr>world := w\<rparr>) (d\<lparr>world := w\<rparr>)"
  by (auto simp: same_collision_def)

lemma narrow_loop_world:
  "narrow_loop generic w reg pairs = Inr (cols, reg') \<Longrightarrow> c \<in> set cols \<Longrightarrow> world c = w"
proof (induction pairs arbitrary: reg cols)
  case Nil
  then show ?case by simp
next
  case (Cons p pairs)
  obtain A B where p: "p = (A, B)" by (cases p)
  from Cons.prems(1) obtain r reg1 cols1 where
    rest: "narrow_loop generic w reg1 pairs = Inr (cols1, reg')"
    and cols: "cols = (case r of None \<Rightarrow> cols1 | Some c \<Rightarrow> c\<lparr>world := w\<rparr> # cols1)"
    unfolding p by (auto split: sum.splits prod.splits)
  show ?case
  proof (cases "c \<in> set cols1")
    case True
    with rest show ?thesis by (rule Cons.IH)
  next
    case False
    with Cons.prems(2) cols show ?thesis
      by (cases r) auto
  qed
qed

lemma narrow_loop_correct:
  assumes inv: "\<And>A B. rel_option same_collision (resolved_test generic reg0 A B)
      (resolved_test generic reg A B)"
  shows "\<exists>cols reg'. narrow_loop generic w reg pairs = Inr (cols, reg') \<and>
     list_all2 (\<lambda>c (A, B). rel_option same_collision
         (map_option (\<lambda>c0. c0\<lparr>world := w\<rparr>) (resolved_test generic reg0 A B)) (Some c))
       cols (filter (\<lambda>(A, B). resolved_test generic reg0 A B \<noteq> None) pairs)"
  using inv
proof (induction pairs arbitrary: reg)
  case Nil
  show ?case by simp
next
  case (Cons p pairs)
  obtain A B where p: "p = (A, B)" by (cases p)
  obtain reg1 where step:
    "NarrowPhase_get_collision generic reg A B = Inr (resolved_test generic reg A B, reg1)"
    using NP_resolved by blast
  have "rel_option same_collision (resolved_test generic reg0 X Y)
      (resolved_test generic reg1 X Y)" for X Y
    using Cons.prems[of X Y] NP_step_equiv[OF step, of X Y] by (rule rel_same_trans)
  from Cons.IH[OF this] obtain cols1 reg' where
    rest: "narrow_loop generic w reg1 pairs = Inr (cols1, reg')"
    and all2: "list_all2 (\<lambda>c (A, B). rel_option same_collision
         (map_option (\<lambda>c0. c0\<lparr>world := w\<rparr>) (resolved_test generic reg0 A B)) (Some c))
       cols1 (filter (\<lambda>(A, B). resolved_test generic reg0 A B \<noteq> None) pairs)"
    by blast
  show ?case
  proof (cases "resolved_test generic reg A B")
    case None
    with Cons.prems[of A B] have "resolved_test generic reg0 A B = None"
      by (cases "resolved_test generic reg0 A B") simp_all
    with None step rest all2 show ?thesis
      by (simp add: p)
  next
    case (Some c)
    with Cons.prems[of A B] obtain c0 where c0: "resolved_test generic reg0 A B = Some c0"
      and same: "same_collision c0 c"
      by (cases "resolved_test generic reg0 A B") simp_all
    from same have "same_collision (c0\<lparr>world := w\<rparr>) (c\<lparr>world := w\<rparr>)"
      by (rule same_collision_world)
    with Some c0 step rest all2 show ?thesis
      by (simp add: p)
  qed
qed

text \<open>
  Claim C2. \<open>NarrowPhase.update\<close> ends without an error and leaves its input as it was.
  The contacts it holds afterwards correspond, one to one and in order, to the pairs of
  the input whose resolved test (direct, reversed with negated normal, or generic)
  reports a collision: each is that test's contact, up to the order in which its two
  bodies are listed, with the world set to the phase's world. Pairs whose test reports
  nothing leave no contact.
\<close>

theorem narrow_update_emits:
  "\<exists>cols reg'. NarrowPhase_update generic reg self pairs =
       Inr (self\<lparr>phase_data := cols\<rparr>, reg', pairs) \<and>
     list_all2 (\<lambda>c (A, B). rel_option same_collision
         (map_option (\<lambda>c0. c0\<lparr>world := phase_world self\<rparr>) (resolved_test generic reg A B))
         (Some c))
       cols (filter (\<lambda>(A, B). resolved_test generic reg A B \<noteq> None) pairs) \<and>
     (\<forall>c \<in> set cols. world c = phase_world self)"
proof -
  have "rel_option same_collision (resolved_test generic reg A B)
      (resolved_test generic reg A B)" for A B
    by (rule rel_same_refl)
  from narrow_loop_correct[of generic reg reg "phase_world self" pairs, OF this]
  obtain cols reg' where
    loop: "narrow_loop generic (phase_world self) reg pairs = Inr (cols, reg')"
    and all2: "list_all2 (\<lambda>c (A, B). rel_option same_collision
         (map_option (\<lambda>c0. c0\<lparr>world := phase_world self\<rparr>) (resolved_test generic reg A B))
         (Some c))
       cols (filter (\<lambda>(A, B). resolved_test generic reg A B \<noteq> None) pairs)"
    by blast
  have "\<forall>c \<in> set cols. world c = phase_world self"
    using narrow_loop_world[OF loop] by blast
  moreover have "NarrowPhase_update generic reg self pairs =
       Inr (self\<lparr>phase_data := cols\<rparr>, reg', pairs)"
    by (simp add: NarrowPhase_update_def loop)
  ultimately show ?thesis
    using all2 by blast
qed


lemma types0: "body_type box1 = ''Rect''" "body_type box2 = ''Circle''"
  "body_type box3 = ''Circle''" "body_type box4 = ''Rect''"
  by (simp_all add: box1_def box2_def box3_def box4_def)

text \<open>Two candidate pairs: the first is resolved by the reversed test, the second has a test that reports nothing.\<close>

theorem narrow_update_emits_witness:
  "(\<exists>cols reg'. NarrowPhase_update gen0 reg_mixed narrow0 [(box1, box2), (box3, box2)] =
       Inr (narrow0\<lparr>phase_data := cols\<rparr>, reg', [(box1, box2), (box3, box2)]) \<and>
     list_all2 (\<lambda>c (A, B). rel_option same_collision
         (map_option (\<lambda>c0. c0\<lparr>world := phase_world narrow0\<rparr>) (resolved_test gen0 reg_mixed A B))
         (Some c))
       cols (filter (\<lambda>(A, B). resolved_test gen0 reg_mixed A B \<noteq> None)
         [(box1, box2), (box3, box2)]) \<and>
     (\<forall>c \<in> set cols. world c = phase_world narrow0))
   \<and> NarrowPhase_update gen0 reg_mixed narrow0 [(box1, box2), (box3, box2)] =
       Inr (narrow0\<lparr>phase_data :=
              [\<lparr>body_A = box2, body_B = box1, normal = (- 1, 0), world = Some 7\<rparr>]\<rparr>,
            reg_mixed((''Rect'', ''Circle'') \<mapsto> inverse_test hit0),
            [(box1, box2), (box3, box2)])
   \<and> filter (\<lambda>(A, B). resolved_test gen0 reg_mixed A B \<noteq> None) [(box1, box2), (box3, box2)] =
       [(box1, box2)]"
proof (intro conjI)
  show "\<exists>cols reg'. NarrowPhase_update gen0 reg_mixed narrow0 [(box1, box2), (box3, box2)] =
       Inr (narrow0\<lparr>phase_data := cols\<rparr>, reg', [(box1, box2), (box3, box2)]) \<and>
     list_all2 (\<lambda>c (A, B). rel_option same_collision
         (map_option (\<lambda>c0. c0\<lparr>world := phase_world narrow0\<rparr>) (resolved_test gen0 reg_mixed A B))
         (Some c))
       cols (filter (\<lambda>(A, B). resolved_test gen0 reg_mixed A B \<noteq> None)
         [(box1, box2), (box3, box2)]) \<and>
     (\<forall>c \<in> set cols. world c = phase_world narrow0)"
    by (rule narrow_update_emits)
next
  show "NarrowPhase_update gen0 reg_mixed narrow0 [(box1, box2), (box3, box2)] =
       Inr (narrow0\<lparr>phase_data :=
              [\<lparr>body_A = box2, body_B = box1, normal = (- 1, 0), world = Some 7\<rparr>]\<rparr>,
            reg_mixed((''Rect'', ''Circle'') \<mapsto> inverse_test hit0),
            [(box1, box2), (box3, box2)])"
    by (simp add: NarrowPhase_update_def NarrowPhase_get_collision_def get_collision_def
        get_implementation_def register_def reg_mixed_def hit0_def miss0_def narrow0_def
        AbstractCollisionPhase_init_def vec_scale_def types0)
next
  show "filter (\<lambda>(A, B). resolved_test gen0 reg_mixed A B \<noteq> None) [(box1, box2), (box3, box2)] =
       [(box1, box2)]"
    by (simp add: resolved_test_def reg_mixed_def hit0_def miss0_def types0)
qed


section \<open>Narrow phase: the dispatch cache\<close>

text \<open>
  Claim C4. When the registry has no entry for \<open>(type A, type B)\<close> nor for
  \<open>(type B, type A)\<close>, so that both lookups raise, \<open>NarrowPhase.get_collision\<close>
  registers the generic test under both ordered pairs and returns the result of the
  generic test on \<open>(A, B)\<close>.
\<close>

theorem generic_fallback_registered:
  assumes "reg (body_type A, body_type B) = None" and "reg (body_type B, body_type A) = None"
  shows "get_collision reg A B = Inl CollisionError \<and> get_collision reg B A = Inl CollisionError \<and>
     NarrowPhase_get_collision generic reg A B =
       Inr (generic A B,
            reg((body_type A, body_type B) \<mapsto> generic, (body_type B, body_type A) \<mapsto> generic))"
  using assms by (simp add: NP_generic get_collision_def)

text \<open>On the empty registry, for a Rect and a Circle.\<close>

theorem generic_fallback_registered_witness:
  "(Map.empty :: registry) (body_type box1, body_type box2) = None \<and>
   (Map.empty :: registry) (body_type box2, body_type box1) = None \<and>
   NarrowPhase_get_collision gen0 Map.empty box1 box2 =
     Inr (Some \<lparr>body_A = box1, body_B = box2, normal = (0, 1), world = None\<rparr>,
          [(''Rect'', ''Circle'') \<mapsto> gen0, (''Circle'', ''Rect'') \<mapsto> gen0])"
proof -
  have none: "(Map.empty :: registry) (body_type box1, body_type box2) = None"
    "(Map.empty :: registry) (body_type box2, body_type box1) = None"
    by simp_all
  from generic_fallback_registered[OF none, where generic = gen0] show ?thesis
    by (simp add: types0 gen0_def)
qed

text \<open>
  Claim C7. With no direct entry for \<open>(type A, type B)\<close> and a test \<open>t\<close> registered for
  \<open>(type B, type A)\<close>: resolving \<open>(B, A)\<close> directly gives \<open>t B A\<close>, and resolving
  \<open>(A, B)\<close> gives a contact exactly when \<open>t B A\<close> is one, with the normal exactly negated.
\<close>

theorem reversed_normal_negated:
  assumes "reg (body_type A, body_type B) = None" and "reg (body_type B, body_type A) = Some t"
  shows "\<exists>r reg'. NarrowPhase_get_collision generic reg A B = Inr (r, reg') \<and>
     get_collision reg B A = Inr (t B A) \<and>
     NarrowPhase_get_collision generic reg B A = Inr (t B A, reg) \<and>
     rel_option (\<lambda>c' c. normal c' = vec_neg (normal c)) r (t B A)"
proof (cases "t B A")
  case None
  with assms show ?thesis
    by (simp add: NP_reversed_none NP_direct get_collision_def)
next
  case (Some col)
  with assms show ?thesis
    by (simp add: NP_reversed_some NP_direct get_collision_def)
qed

text \<open>The test registered for (Circle, Rect) reports normal \<open>(1, 0)\<close>; the Rect/Circle call returns \<open>(-1, 0)\<close>.\<close>

theorem reversed_normal_negated_witness:
  "reg_hit (body_type box1, body_type box2) = None \<and>
   reg_hit (body_type box2, body_type box1) = Some hit0 \<and>
   (\<exists>r reg'. NarrowPhase_get_collision gen0 reg_hit box1 box2 = Inr (r, reg') \<and>
     get_collision reg_hit box2 box1 = Inr (hit0 box2 box1) \<and>
     NarrowPhase_get_collision gen0 reg_hit box2 box1 = Inr (hit0 box2 box1, reg_hit) \<and>
     rel_option (\<lambda>c' c. normal c' = vec_neg (normal c)) r (hit0 box2 box1)) \<and>
   map_option normal (hit0 box2 box1) = Some (1, 0) \<and>
   map_sum id (map_option normal \<circ> fst) (NarrowPhase_get_collision gen0 reg_hit box1 box2) =
     Inr (Some (- 1, 0))"
proof -
  have none: "reg_hit (body_type box1, body_type box2) = None"
    and some: "reg_hit (body_type box2, body_type box1) = Some hit0"
    by (simp_all add: reg_hit_def types0)
  have "map_sum id (map_option normal \<circ> fst) (NarrowPhase_get_collision gen0 reg_hit box1 box2) =
     Inr (Some (- 1, 0))"
    by (simp add: NP_reversed_some[OF none some] hit0_def vec_neg_def)
  with reversed_normal_negated[OF none some, of gen0] none some show ?thesis
    by (simp add: hit0_def)
qed


lemma reg_hit_first:
  "NarrowPhase_get_collision gen0 reg_hit box1 box2 =
     Inr (Some \<lparr>body_A = box2, body_B = box1, normal = (- 1, 0), world = None\<rparr>,
          reg_hit((''Rect'', ''Circle'') \<mapsto> inverse_test hit0))"
  by (simp add: NarrowPhase_get_collision_def get_collision_def get_implementation_def
      register_def reg_hit_def hit0_def vec_scale_def types0)

text \<open>
  Claim C5 as stated fails: with no direct entry and a reversed test that reports no
  collision, the call returns \<^verbatim>\<open>None\<close> and the registry is left as it was, without a
  wrapper for \<open>(type A, type B)\<close>.
\<close>

theorem reversed_miss_registers_nothing:
  "reg_miss (body_type box1, body_type box2) = None \<and>
   reg_miss (body_type box2, body_type box1) = Some miss0 \<and>
   get_collision reg_miss box2 box1 = Inr None \<and>
   NarrowPhase_get_collision gen0 reg_miss box1 box2 = Inr (None, reg_miss)"
  by (simp add: NarrowPhase_get_collision_def get_collision_def reg_miss_def miss0_def types0)

text \<open>
  Claim C5, amended. When there is no direct entry for \<open>(type A, type B)\<close>, a test
  \<open>direct\<close> is registered for \<open>(type B, type A)\<close> and it reports a collision for
  \<open>(B, A)\<close>, the call registers under \<open>(type A, type B)\<close> the wrapper that calls
  \<open>direct\<close> with swapped arguments and returns the swapped contact; from then on every
  pair of these two types is resolved by one direct lookup, which runs the wrapper.
\<close>

theorem reversed_hit_registers_wrapper:
  assumes "reg (body_type A, body_type B) = None"
    and "reg (body_type B, body_type A) = Some direct"
    and "direct B A = Some col"
  shows "\<exists>r. NarrowPhase_get_collision generic reg A B =
       Inr (r, reg((body_type A, body_type B) \<mapsto> inverse_test direct)) \<and>
     (\<forall>A' B'. body_type A' = body_type A \<and> body_type B' = body_type B \<longrightarrow>
        get_collision (reg((body_type A, body_type B) \<mapsto> inverse_test direct)) A' B' =
          Inr (map_option swapped (direct B' A')))"
proof -
  have "inverse_test direct A' B' = map_option swapped (direct B' A')" for A' B'
    by (cases "direct B' A'") (simp_all add: inverse_test_def)
  with assms show ?thesis
    by (simp add: NP_reversed_some get_collision_def)
qed

text \<open>A Rect and a Circle with only (Circle, Rect) registered, to a test that reports a collision.\<close>

theorem reversed_hit_registers_wrapper_witness:
  "reg_hit (body_type box1, body_type box2) = None \<and>
   reg_hit (body_type box2, body_type box1) = Some hit0 \<and>
   hit0 box2 box1 = Some \<lparr>body_A = box2, body_B = box1, normal = (1, 0), world = None\<rparr> \<and>
   (\<exists>r. NarrowPhase_get_collision gen0 reg_hit box1 box2 =
       Inr (r, reg_hit((body_type box1, body_type box2) \<mapsto> inverse_test hit0)) \<and>
     (\<forall>A' B'. body_type A' = body_type box1 \<and> body_type B' = body_type box2 \<longrightarrow>
        get_collision (reg_hit((body_type box1, body_type box2) \<mapsto> inverse_test hit0)) A' B' =
          Inr (map_option swapped (hit0 B' A'))))"
proof -
  have a: "reg_hit (body_type box1, body_type box2) = None"
    and b: "reg_hit (body_type box2, body_type box1) = Some hit0"
    and c: "hit0 box2 box1 = Some \<lparr>body_A = box2, body_B = box1, normal = (1, 0), world = None\<rparr>"
    by (simp_all add: reg_hit_def hit0_def types0)
  from reversed_hit_registers_wrapper[OF a b c, of gen0] a b c show ?thesis
    by (intro conjI)
qed

text \<open>
  Claim C6 as stated fails: when the reversed test reports a collision, the entry of the
  registry for \<open>(type A, type B)\<close> is not what it was before the call.
\<close>

theorem reversed_hit_changes_registry:
  "reg_hit (body_type box1, body_type box2) = None \<and>
   get_collision reg_hit box2 box1 =
     Inr (Some \<lparr>body_A = box2, body_B = box1, normal = (1, 0), world = None\<rparr>) \<and>
   NarrowPhase_get_collision gen0 reg_hit box1 box2 =
     Inr (Some \<lparr>body_A = box2, body_B = box1, normal = (- 1, 0), world = None\<rparr>,
          reg_hit((''Rect'', ''Circle'') \<mapsto> inverse_test hit0)) \<and>
   (reg_hit((''Rect'', ''Circle'') \<mapsto> inverse_test hit0)) (body_type box1, body_type box2) \<noteq>
     reg_hit (body_type box1, body_type box2)"
  using reg_hit_first by (simp add: get_collision_def reg_hit_def hit0_def types0)

text \<open>
  Claim C6, amended. When the direct entry is missing and the reversed test reports a
  collision, the collision is returned with its normal negated, the registry holds the
  inverse wrapper under \<open>(type A, type B)\<close> afterwards, and every other entry is unchanged.
\<close>

theorem reversed_hit_negates_and_caches:
  assumes "reg (body_type A, body_type B) = None"
    and "reg (body_type B, body_type A) = Some direct"
    and "direct B A = Some col"
  shows "\<exists>reg'. NarrowPhase_get_collision generic reg A B =
       Inr (Some (col\<lparr>normal := vec_neg (normal col)\<rparr>), reg') \<and>
     reg' (body_type A, body_type B) = Some (inverse_test direct) \<and>
     (\<forall>k. k \<noteq> (body_type A, body_type B) \<longrightarrow> reg' k = reg k)"
  using assms by (simp add: NP_reversed_some)

text \<open>The same Rect and Circle.\<close>

theorem reversed_hit_negates_and_caches_witness:
  "reg_hit (body_type box1, body_type box2) = None \<and>
   reg_hit (body_type box2, body_type box1) = Some hit0 \<and>
   hit0 box2 box1 = Some \<lparr>body_A = box2, body_B = box1, normal = (1, 0), world = None\<rparr> \<and>
   (\<exists>reg'. NarrowPhase_get_collision gen0 reg_hit box1 box2 =
       Inr (Some (\<lparr>body_A = box2, body_B = box1, normal = (1, 0), world = None\<rparr>
                   \<lparr>normal := vec_neg (1, 0)\<rparr>), reg') \<and>
     reg' (body_type box1, body_type box2) = Some (inverse_test hit0) \<and>
     (\<forall>k. k \<noteq> (body_type box1, body_type box2) \<longrightarrow> reg' k = reg_hit k))"
proof -
  have a: "reg_hit (body_type box1, body_type box2) = None"
    and b: "reg_hit (body_type box2, body_type box1) = Some hit0"
    and c: "hit0 box2 box1 = Some \<lparr>body_A = box2, body_B = box1, normal = (1, 0), world = None\<rparr>"
    by (simp_all add: reg_hit_def hit0_def types0)
  from reversed_hit_negates_and_caches[OF a b c, of gen0] a b c show ?thesis
    by simp
qed

section \<open>Broad phase: the circle sweep under rounding\<close>

lemma pow2_powr: "pow2 e = 2 powr (of_int e)"
  by (simp add: pow2_def powr_int)

text \<open>\<open>fl\<close> at a number whose binade is known.\<close>

lemma fl_eval:
  assumes "x \<noteq> 0" and "pow2 e \<le> \<bar>x\<bar>" and "\<bar>x\<bar> < pow2 (e + 1)"
  shows "fl x = pow2 (e - 52) * of_int (round_even (x / pow2 (e - 52)))"
proof -
  have "\<lfloor>log 2 \<bar>x\<bar>\<rfloor> = e"
    using assms by (subst floor_log_eq_powr_iff) (simp_all add: pow2_powr)
  with assms(1) show ?thesis
    by (simp add: fl_def Let_def)
qed

lemma fl_zero: "fl 0 = 0"
  by (simp add: fl_def)













lemma cbb_update_data:
  "phase_data (fst (BroadPhaseCBB_update self L)) = cbb_sweep (sort_key cbb_left L)"
  by (simp add: BroadPhaseCBB_update_def)



text \<open>
  Rounding can also keep a pair: the exact extents of \<open>disc3\<close> and \<open>disc4\<close> are apart,
  but the floats \<^verbatim>\<open>B_left\<close> and \<^verbatim>\<open>A_right\<close> are both \<open>1\<close> and the float sum of the
  radii is \<open>2\<close>, the distance.
\<close>

lemma cbb_rounding_keeps_pair:
  "phase_data (fst (BroadPhaseCBB_update broad0 [disc3, disc4])) = [CBBContact disc3 disc4]"
proof -
  have m1: "fl (- 1) = - 1"
    by (subst fl_eval[where e = 0]) (simp_all add: pow2_def round_even_def)
  have p1: "fl 1 = 1"
    by (subst fl_eval[where e = 0]) (simp_all add: pow2_def round_even_def)
  have m2: "fl (- 2) = - 2"
    by (subst fl_eval[where e = 1]) (simp_all add: pow2_def round_even_def)
  have p2: "fl 2 = 2"
    by (subst fl_eval[where e = 1]) (simp_all add: pow2_def round_even_def)
  have left: "fl (2 - 9007199254740991 / 9007199254740992) = 1"
    by (subst fl_eval[where e = 0]) (simp_all add: pow2_def round_even_def)
  have sum: "fl (1 + 9007199254740991 / 9007199254740992) = 2"
    by (subst fl_eval[where e = 0]) (simp_all add: pow2_def round_even_def)
  have keys: "cbb_left disc3 = - 1" "cbb_left disc4 = 1"
    using m1 left by (simp_all add: cbb_left_def disc3_def disc4_def)
  have right: "fl (fst (pos disc3) + cbb_radius disc3) = 1"
    using p1 by (simp add: disc3_def)
  have "vec_sub (pos disc3) (pos disc4) = (- 2, 0)"
    using m2 by (simp add: vec_sub_def disc3_def disc4_def fl_zero)
  then have norm: "vec_norm (vec_sub (pos disc3) (pos disc4)) = 2"
    using p2 real_sqrt_abs[of 2] by (simp add: vec_norm_def)
  have radii: "fl (cbb_radius disc3 + cbb_radius disc4) = 2"
    using sum by (simp add: disc3_def disc4_def)
  have dyn: "is_dynamic disc3" "\<not> is_sleep disc3"
    by (simp_all add: disc3_def)
  have "cbb_scan disc3 [disc4] = [CBBContact disc3 disc4]"
    by (simp add: keys right norm radii dyn)
  then have "cbb_sweep [disc3, disc4] = [CBBContact disc3 disc4]"
    by (simp only: cbb_sweep.simps cbb_scan.simps(1) append.simps)
  moreover have "sort_key cbb_left [disc3, disc4] = [disc3, disc4]"
    by (simp add: keys)
  ultimately show ?thesis
    by (simp only: cbb_update_data)
qed

section \<open>Narrow phase: the cached wrapper against the in-line reversed path\<close>

text \<open>
  Claim C3 fails on the code. With only (Circle, Rect) registered, a first call for a Rect
  and a Circle goes through the reversed test and caches the wrapper. For another Rect
  \<open>box4\<close> and Circle \<open>box3\<close> the uncached path answers with the reversed test's contact,
  bodies \<open>(box3, box4)\<close>, normal negated; the cached wrapper answers with the swapped
  contact, bodies \<open>(box4, box3)\<close>, the same normal. The two answers are not identical up
  to the sign of the normal, nor is one the swapped other.
\<close>

theorem cached_wrapper_differs_from_inline:
  "NarrowPhase_get_collision gen0 reg_hit box1 box2 =
     Inr (Some \<lparr>body_A = box2, body_B = box1, normal = (- 1, 0), world = None\<rparr>,
          reg_hit((''Rect'', ''Circle'') \<mapsto> inverse_test hit0)) \<and>
   body_type box4 = body_type box1 \<and> body_type box3 = body_type box2 \<and>
   NarrowPhase_get_collision gen0 reg_hit box4 box3 =
     Inr (Some \<lparr>body_A = box3, body_B = box4, normal = (- 1, 0), world = None\<rparr>,
          reg_hit((''Rect'', ''Circle'') \<mapsto> inverse_test hit0)) \<and>
   NarrowPhase_get_collision gen0 (reg_hit((''Rect'', ''Circle'') \<mapsto> inverse_test hit0))
       box4 box3 =
     Inr (Some \<lparr>body_A = box4, body_B = box3, normal = (- 1, 0), world = None\<rparr>,
          reg_hit((''Rect'', ''Circle'') \<mapsto> inverse_test hit0)) \<and>
   \<not> same_up_to_normal_sign
       \<lparr>body_A = box3, body_B = box4, normal = (- 1, 0), world = None\<rparr>
       \<lparr>body_A = box4, body_B = box3, normal = (- 1, 0), world = None\<rparr> \<and>
   \<lparr>body_A = box4, body_B = box3, normal = (- 1, 0), world = None\<rparr> \<noteq>
     swapped \<lparr>body_A = box3, body_B = box4, normal = (- 1, 0), world = None\<rparr>"
proof (intro conjI)
  show "NarrowPhase_get_collision gen0 reg_hit box1 box2 =
     Inr (Some \<lparr>body_A = box2, body_B = box1, normal = (- 1, 0), world = None\<rparr>,
          reg_hit((''Rect'', ''Circle'') \<mapsto> inverse_test hit0))"
    by (rule reg_hit_first)
  show "NarrowPhase_get_collision gen0 reg_hit box4 box3 =
     Inr (Some \<lparr>body_A = box3, body_B = box4, normal = (- 1, 0), world = None\<rparr>,
          reg_hit((''Rect'', ''Circle'') \<mapsto> inverse_test hit0))"
    by (simp add: NarrowPhase_get_collision_def get_collision_def get_implementation_def
        register_def reg_hit_def hit0_def vec_scale_def types0)
  show "NarrowPhase_get_collision gen0 (reg_hit((''Rect'', ''Circle'') \<mapsto> inverse_test hit0))
       box4 box3 =
     Inr (Some \<lparr>body_A = box4, body_B = box3, normal = (- 1, 0), world = None\<rparr>,
          reg_hit((''Rect'', ''Circle'') \<mapsto> inverse_test hit0))"
    by (simp add: NarrowPhase_get_collision_def get_collision_def inverse_test_def swapped_def
        hit0_def vec_neg_def types0)
  show "\<not> same_up_to_normal_sign
       \<lparr>body_A = box3, body_B = box4, normal = (- 1, 0), world = None\<rparr>
       \<lparr>body_A = box4, body_B = box3, normal = (- 1, 0), world = None\<rparr>"
    by (simp add: same_up_to_normal_sign_def box3_def box4_def)
  show "\<lparr>body_A = box4, body_B = box3, normal = (- 1, 0), world = None\<rparr> \<noteq>
     swapped \<lparr>body_A = box3, body_B = box4, normal = (- 1, 0), world = None\<rparr>"
    by (simp add: swapped_def vec_neg_def)
qed (simp_all add: types0)

text \<open>
  Claim C8 fails on the code, in the narrow phase. Two updates in a row with the same input
  hold different contacts: the first goes through the reversed test and caches the
  wrapper, the second is answered by the wrapper, which lists the bodies in the other
  order.
\<close>

theorem narrow_update_depends_on_registry:
  "NarrowPhase_update gen0 reg_hit narrow0 [(box1, box2)] =
     Inr (narrow0\<lparr>phase_data :=
            [\<lparr>body_A = box2, body_B = box1, normal = (- 1, 0), world = Some 7\<rparr>]\<rparr>,
          reg_hit((''Rect'', ''Circle'') \<mapsto> inverse_test hit0), [(box1, box2)]) \<and>
   NarrowPhase_update gen0 (reg_hit((''Rect'', ''Circle'') \<mapsto> inverse_test hit0))
       (narrow0\<lparr>phase_data :=
            [\<lparr>body_A = box2, body_B = box1, normal = (- 1, 0), world = Some 7\<rparr>]\<rparr>)
       [(box1, box2)] =
     Inr (narrow0\<lparr>phase_data :=
            [\<lparr>body_A = box1, body_B = box2, normal = (- 1, 0), world = Some 7\<rparr>]\<rparr>,
          reg_hit((''Rect'', ''Circle'') \<mapsto> inverse_test hit0), [(box1, box2)]) \<and>
   [\<lparr>body_A = box1, body_B = box2, normal = (- 1, 0), world = Some 7\<rparr>] \<noteq>
   [\<lparr>body_A = box2, body_B = box1, normal = (- 1 :: real, 0 :: real), world = Some (7 :: nat)\<rparr>]"
proof (intro conjI)
  show "NarrowPhase_update gen0 reg_hit narrow0 [(box1, box2)] =
     Inr (narrow0\<lparr>phase_data :=
            [\<lparr>body_A = box2, body_B = box1, normal = (- 1, 0), world = Some 7\<rparr>]\<rparr>,
          reg_hit((''Rect'', ''Circle'') \<mapsto> inverse_test hit0), [(box1, box2)])"
    by (simp add: NarrowPhase_update_def reg_hit_first narrow0_def AbstractCollisionPhase_init_def)
next
  have "NarrowPhase_get_collision gen0 (reg_hit((''Rect'', ''Circle'') \<mapsto> inverse_test hit0))
      box1 box2 =
    Inr (Some \<lparr>body_A = box1, body_B = box2, normal = (- 1, 0), world = None\<rparr>,
         reg_hit((''Rect'', ''Circle'') \<mapsto> inverse_test hit0))"
    by (simp add: NarrowPhase_get_collision_def get_collision_def inverse_test_def swapped_def
        hit0_def vec_neg_def types0)
  then show "NarrowPhase_update gen0 (reg_hit((''Rect'', ''Circle'') \<mapsto> inverse_test hit0))
       (narrow0\<lparr>phase_data :=
            [\<lparr>body_A = box2, body_B = box1, normal = (- 1, 0), world = Some 7\<rparr>]\<rparr>)
       [(box1, box2)] =
     Inr (narrow0\<lparr>phase_data :=
            [\<lparr>body_A = box1, body_B = box2, normal = (- 1, 0), world = Some 7\<rparr>]\<rparr>,
          reg_hit((''Rect'', ''Circle'') \<mapsto> inverse_test hit0), [(box1, box2)])"
    by (simp add: NarrowPhase_update_def narrow0_def AbstractCollisionPhase_init_def)
next
  show "[\<lparr>body_A = box1, body_B = box2, normal = (- 1, 0), world = Some 7\<rparr>] \<noteq>
   [\<lparr>body_A = box2, body_B = box1, normal = (- 1 :: real, 0 :: real), world = Some (7 :: nat)\<rparr>]"
    by (simp add: box1_def box2_def)
qed

section \<open>Group extraction\<close>

text \<open>
  Claim C9 fails on the code: for a single contact between two bodies,
  \<open>NarrowPhase.get_groups\<close> prints the phase it built and returns \<^verbatim>\<open>None\<close>, not the
  group of the two bodies.
\<close>

theorem get_groups_returns_None:
  "NarrowPhase_get_groups narrow0
     (Some [\<lparr>body_A = box1, body_B = box2, normal = (- 1, 0), world = Some 7\<rparr>]) =
   (\<lparr>phase_world = None,
      phase_data = [\<lparr>body_A = box1, body_B = box2, normal = (- 1, 0), world = Some 7\<rparr>]\<rparr>,
    None)"
  by (simp add: NarrowPhase_get_groups_def AbstractCollisionPhase_init_def)


end
